theory Spec2Isabelle
  imports Complex_Main
begin

section \<open>JavaScript values as the upload routes of server.js see them\<close>

text \<open>
  A JavaScript string is a sequence of UTF-16 code units; a code unit is modelled as a
  natural number, so that the pound sign is the single unit 163 and the euro sign the
  single unit 8364, as in the source's regular expressions. \<open>js ''abc''\<close> writes an
  ASCII literal.
\<close>

type_synonym jsstring = "nat list"

abbreviation (input) js :: "string \<Rightarrow> jsstring" where
  "js s \<equiv> map of_char s"

text \<open>
  A JavaScript number is modelled by its exact decimal value, with the three special
  values apart. The rounding of IEEE doubles is not modelled; negative zero is zero.
\<close>

datatype jsnum = NaN | PosInf | NegInf | Fin rat

text \<open>
  The values a cell of a row of \<open>sheet_to_json\<close> can hold in the two upload routes
  (neither route asks the reader for raw date cells), and \<open>undefined\<close> for a column the
  row does not have.
\<close>

datatype jsval = JUndefined | JNull | JBool bool | JNum jsnum | JStr jsstring

text \<open>A Date object: an invalid date, a time value in milliseconds since
  1970-01-01T00:00:00Z, or the instant at which the local clock of the host reads the
  given number of milliseconds since 1970-01-01T00:00:00 (the time zone of the host is
  not modelled, so a date built from local fields is kept as local fields).\<close>

datatype jsdate = InvalidDate | UTC int | Local int

type_synonym row = "jsstring \<rightharpoonup> jsval"

fun truthy :: "jsval \<Rightarrow> bool" where
  "truthy JUndefined = False"
| "truthy JNull = False"
| "truthy (JBool b) = b"
| "truthy (JNum n) = (n \<noteq> NaN \<and> n \<noteq> Fin 0)"
| "truthy (JStr s) = (s \<noteq> [])"

text \<open>\<open>a || b\<close>\<close>

definition js_or :: "jsval \<Rightarrow> jsval \<Rightarrow> jsval" where
  "js_or a b = (if truthy a then a else b)"

text \<open>\<open>row[label]\<close>: the property, or \<open>undefined\<close>.\<close>

definition col :: "row \<Rightarrow> jsstring \<Rightarrow> jsval" where
  "col r k = (case r k of None \<Rightarrow> JUndefined | Some v \<Rightarrow> v)"

subsection \<open>Characters and string methods\<close>

definition is_digit :: "nat \<Rightarrow> bool" where
  "is_digit c = (48 \<le> c \<and> c \<le> 57)"

text \<open>WhiteSpace and LineTerminator of ECMAScript, which \<open>trim\<close>, \<open>parseFloat\<close> and
  \<open>parseInt\<close> skip.\<close>

definition is_ws :: "nat \<Rightarrow> bool" where
  "is_ws c = (c \<in> {9, 10, 11, 12, 13, 32, 160, 5760, 8232, 8233, 8239, 8287, 12288, 65279}
              \<or> (8192 \<le> c \<and> c \<le> 8202))"

definition trim :: "jsstring \<Rightarrow> jsstring" where
  "trim s = rev (dropWhile is_ws (rev (dropWhile is_ws s)))"

text \<open>\<open>s.replace(/c/g, '')\<close> for a single character \<open>c\<close>.\<close>

definition remove_char :: "nat \<Rightarrow> jsstring \<Rightarrow> jsstring" where
  "remove_char c s = filter (\<lambda>x. x \<noteq> c) s"

text \<open>\<open>s.replace(/GBP/gi, '')\<close>: the matches are taken from left to right and do not
  overlap; without the unicode flag only the ASCII letters match.\<close>

definition is_letter :: "nat \<Rightarrow> nat \<Rightarrow> bool" where
  "is_letter upper c = (c = upper \<or> c = upper + 32)"

fun remove_GBP :: "jsstring \<Rightarrow> jsstring" where
  "remove_GBP (a # b # c # s) =
     (if is_letter 71 a \<and> is_letter 66 b \<and> is_letter 80 c then remove_GBP s
      else a # remove_GBP (b # c # s))"
| "remove_GBP s = s"

definition digits_val :: "jsstring \<Rightarrow> nat" where
  "digits_val ds = foldl (\<lambda>a c. 10 * a + (c - 48)) 0 ds"

text \<open>The decimal digits of a natural number.\<close>

function show_nat :: "nat \<Rightarrow> jsstring" where
  "show_nat n = (if n < 10 then [48 + n] else show_nat (n div 10) @ [48 + n mod 10])"
  by pat_completeness auto
termination
  by (relation "measure (\<lambda>n. n)") auto

declare show_nat.simps [simp del]

text \<open>The digits of a fraction below 1, at most \<open>fuel\<close> of them.\<close>

fun frac_digits :: "nat \<Rightarrow> rat \<Rightarrow> jsstring" where
  "frac_digits fuel q =
     (if fuel = 0 \<or> q = 0 then []
      else (48 + nat \<lfloor>q * 10\<rfloor>) # frac_digits (fuel - 1) (q * 10 - of_int \<lfloor>q * 10\<rfloor>))"

declare frac_digits.simps [simp del]

text \<open>
  \<open>Number::toString\<close> in plain decimal notation: the digits of the integer part and,
  for a value that is not whole, a point and the digits of the fraction (at most twenty).
  The exponent notation that JavaScript uses from \<open>1e21\<close> on and below \<open>1e-6\<close> is not
  modelled.
\<close>

definition num_to_string :: "jsnum \<Rightarrow> jsstring" where
  "num_to_string n =
     (case n of
        NaN \<Rightarrow> js ''NaN''
      | PosInf \<Rightarrow> js ''Infinity''
      | NegInf \<Rightarrow> js ''-Infinity''
      | Fin q \<Rightarrow>
          (let a = \<bar>q\<bar>; ip = nat \<lfloor>a\<rfloor>; fr = a - of_int \<lfloor>a\<rfloor>
           in (if q < 0 then js ''-'' else []) @ show_nat ip
              @ (if fr = 0 then [] else js ''.'' @ frac_digits 20 fr)))"

text \<open>\<open>String(v)\<close>, and \<open>v.toString()\<close> where \<open>v\<close> is a string, a number or a boolean.\<close>

fun to_string :: "jsval \<Rightarrow> jsstring" where
  "to_string JUndefined = js ''undefined''"
| "to_string JNull = js ''null''"
| "to_string (JBool b) = (if b then js ''true'' else js ''false'')"
| "to_string (JNum n) = num_to_string n"
| "to_string (JStr s) = s"

subsection \<open>parseFloat and parseInt\<close>

definition exp10 :: "int \<Rightarrow> rat" where
  "exp10 e = (if 0 \<le> e then 10 ^ nat e else 1 / 10 ^ nat (- e))"

text \<open>The ExponentPart at the head of the rest of the literal, 0 when there is none.\<close>

definition exponent_of :: "jsstring \<Rightarrow> int" where
  "exponent_of r =
     (case r of
        [] \<Rightarrow> 0
      | e # t \<Rightarrow>
          if e = 101 \<or> e = 69 then
            (case t of
               [] \<Rightarrow> 0
             | sg # u \<Rightarrow>
                 if sg = 45 then - int (digits_val (takeWhile is_digit u))
                 else if sg = 43 then int (digits_val (takeWhile is_digit u))
                 else int (digits_val (takeWhile is_digit t)))
          else 0)"

text \<open>The value of the longest prefix that is a StrUnsignedDecimalLiteral.\<close>

definition parse_unsigned :: "jsstring \<Rightarrow> jsnum" where
  "parse_unsigned s =
     (if take 8 s = js ''Infinity'' then PosInf
      else
        (let ip = takeWhile is_digit s;
             r1 = dropWhile is_digit s;
             dot = (r1 \<noteq> [] \<and> hd r1 = 46);
             fp = (if dot then takeWhile is_digit (tl r1) else []);
             r2 = (if dot then dropWhile is_digit (tl r1) else r1)
         in if ip = [] \<and> fp = [] then NaN
            else Fin ((of_nat (digits_val ip) + of_nat (digits_val fp) / 10 ^ length fp)
                      * exp10 (exponent_of r2))))"

definition num_neg :: "jsnum \<Rightarrow> jsnum" where
  "num_neg n = (case n of NaN \<Rightarrow> NaN | PosInf \<Rightarrow> NegInf | NegInf \<Rightarrow> PosInf | Fin q \<Rightarrow> Fin (- q))"

definition parseFloat :: "jsstring \<Rightarrow> jsnum" where
  "parseFloat s =
     (case dropWhile is_ws s of
        [] \<Rightarrow> NaN
      | c # r \<Rightarrow>
          if c = 45 then num_neg (parse_unsigned r)
          else if c = 43 then parse_unsigned r
          else parse_unsigned (c # r))"

text \<open>\<open>parseInt(s, 10)\<close>, and \<open>parseInt(s)\<close> on a string without the letter x: the
  longest prefix of decimal digits after white space and a sign, \<open>None\<close> for NaN.\<close>

definition parseInt :: "jsstring \<Rightarrow> int option" where
  "parseInt s =
     (let t = dropWhile is_ws s;
          neg = (t \<noteq> [] \<and> hd t = 45);
          u = (if t \<noteq> [] \<and> (hd t = 45 \<or> hd t = 43) then tl t else t);
          ds = takeWhile is_digit u
      in if ds = [] then None
         else Some (if neg then - int (digits_val ds) else int (digits_val ds)))"

text \<open>\<open>n || 0\<close> on numbers.\<close>

definition num_or_zero :: "jsnum \<Rightarrow> jsnum" where
  "num_or_zero n = (if n = NaN \<or> n = Fin 0 then Fin 0 else n)"

subsection \<open>Dates\<close>

text \<open>The number of days from 1970-01-01 to the day of the proleptic Gregorian
  calendar given by year, month (1 to 12) and day of the month.\<close>

definition days_from_civil :: "int \<Rightarrow> int \<Rightarrow> int \<Rightarrow> int" where
  "days_from_civil y m d =
     (let y' = (if m \<le> 2 then y - 1 else y);
          era = y' div 400;
          yoe = y' - era * 400;
          mp = (m + 9) mod 12;
          doy = (153 * mp + 2) div 5 + d - 1;
          doe = yoe * 365 + yoe div 4 - yoe div 100 + doy
      in era * 146097 + doe - 719468)"

text \<open>MakeDay of ECMAScript: the month is an index from 0 and may lie outside 0..11,
  the day of the month may lie outside the month; both roll over.\<close>

definition MakeDay :: "int \<Rightarrow> int \<Rightarrow> int \<Rightarrow> int" where
  "MakeDay year month date = days_from_civil (year + month div 12) (month mod 12 + 1) 1 + date - 1"

definition msPerDay :: int where
  "msPerDay = 86400000"

text \<open>ToIntegerOrInfinity on a finite value: truncation towards zero.\<close>

definition truncate_rat :: "rat \<Rightarrow> int" where
  "truncate_rat q = (if 0 \<le> q then \<lfloor>q\<rfloor> else \<lceil>q\<rceil>)"

text \<open>\<open>new Date(n)\<close> for a number: TimeClip makes the date invalid outside
  \<open>\<plusminus>8.64e15\<close> milliseconds.\<close>

definition Date_of_number :: "jsnum \<Rightarrow> jsdate" where
  "Date_of_number n =
     (case n of
        Fin q \<Rightarrow> if \<bar>q\<bar> \<le> 8640000000000000 then UTC (truncate_rat q) else InvalidDate
      | _ \<Rightarrow> InvalidDate)"

text \<open>\<open>new Date(year, monthIndex, day)\<close>: local midnight of the day; a year from 0 to
  99 means 1900 + year. (TimeClip is applied to the local value here, the offset of the
  time zone being unknown.)\<close>

definition Date_local :: "int \<Rightarrow> int \<Rightarrow> int \<Rightarrow> jsdate" where
  "Date_local year monthIndex day =
     (let yr = (if 0 \<le> year \<and> year \<le> 99 then 1900 + year else year);
          t = MakeDay yr monthIndex day * msPerDay
      in if \<bar>t\<bar> \<le> 8640000000000000 then Local t else InvalidDate)"

text \<open>\<open>s.split(c)\<close> for a single character.\<close>

fun split_on :: "nat \<Rightarrow> jsstring \<Rightarrow> jsstring list" where
  "split_on c [] = [[]]"
| "split_on c (x # xs) =
     (if x = c then [] # split_on c xs
      else (case split_on c xs of [] \<Rightarrow> [[x]] | p # ps \<Rightarrow> (x # p) # ps))"

definition all_digits :: "jsstring \<Rightarrow> bool" where
  "all_digits s = list_all is_digit s"

text \<open>The pattern of the day-first branch: one or two digits, a slash, one or two
  digits, a slash, four digits, and nothing else.\<close>

definition matches_dmy :: "jsstring \<Rightarrow> bool" where
  "matches_dmy s =
     (case split_on 47 s of
        [a, b, c] \<Rightarrow> all_digits a \<and> length a \<in> {1, 2} \<and> all_digits b \<and> length b \<in> {1, 2}
                      \<and> all_digits c \<and> length c = 4
      | _ \<Rightarrow> False)"

text \<open>The pattern of the last branch: four digits, a hyphen, two digits, a hyphen, two
  digits, and nothing else.\<close>

definition matches_ymd :: "jsstring \<Rightarrow> bool" where
  "matches_ymd s =
     (case split_on 45 s of
        [a, b, c] \<Rightarrow> all_digits a \<and> length a = 4 \<and> all_digits b \<and> length b = 2
                      \<and> all_digits c \<and> length c = 2
      | _ \<Rightarrow> False)"

section \<open>The date normalizer: parseExcelDate\<close>

text \<open>
  \<open>new Date(string)\<close> is the host's parser: ECMAScript fixes it for the ISO format only
  and leaves every other string to the implementation. \<open>parseExcelDate\<close> therefore takes
  the host's parser as its first argument. Its second argument is the value: \<open>Inl d\<close> for
  a Date object, \<open>Inr v\<close> for any other value. The result is the Date returned, or
  \<open>None\<close> for \<open>null\<close>.
\<close>

text \<open>\<open>(value - 25569) * 86400 * 1000\<close> on a number.\<close>

definition serial_to_ms :: "jsnum \<Rightarrow> jsnum" where
  "serial_to_ms n =
     (case n of Fin q \<Rightarrow> Fin ((q - 25569) * 86400 * 1000) | other \<Rightarrow> other)"

text \<open>The branch for a string that matches the day-first pattern.\<close>

definition day_first_date :: "jsstring \<Rightarrow> jsdate" where
  "day_first_date trimmedValue =
     (case map parseInt (split_on 47 trimmedValue) of
        [Some day, Some month, Some year] \<Rightarrow> Date_local year (month - 1) day
      | _ \<Rightarrow> InvalidDate)"

definition parseExcelDate :: "(jsstring \<Rightarrow> jsdate) \<Rightarrow> jsdate + jsval \<Rightarrow> jsdate option" where
  "parseExcelDate new_Date value =
     (case value of
        Inl d \<Rightarrow> Some d
      | Inr v \<Rightarrow>
          if \<not> truthy v then None
          else
            (case v of
               JNum n \<Rightarrow>
                 (let excelDate = Date_of_number (serial_to_ms n)
                  in if excelDate \<noteq> InvalidDate then Some excelDate else None)
             | JStr s \<Rightarrow>
                 (let trimmedValue = trim s
                  in if new_Date trimmedValue \<noteq> InvalidDate then Some (new_Date trimmedValue)
                     else if matches_dmy trimmedValue
                             \<and> day_first_date trimmedValue \<noteq> InvalidDate
                     then Some (day_first_date trimmedValue)
                     else if matches_ymd trimmedValue \<and> new_Date trimmedValue \<noteq> InvalidDate
                     then Some (new_Date trimmedValue)
                     else None)
             | _ \<Rightarrow> None))"

text \<open>
  The host of the program is Node, whose parser is V8's. Its behaviour on the two
  all-digit shapes that \<open>parseExcelDate\<close> itself names is: an ISO date \<open>YYYY-MM-DD\<close> is
  read as year, month, day at midnight UTC; three numbers separated by slashes are read by
  the legacy parser as month, day, year in local time (as year, month, day when the first
  number cannot be a day), a year below 50 meaning 2000 + year and a year from 50 to 99
  meaning 1900 + year. The month must lie in 1..12 and the day in 1..31. Strings of any
  other shape are outside this fragment; \<open>node_Date\<close> gives them as invalid, and is used
  below only on strings of the two shapes.
\<close>

definition day_composer :: "bool \<Rightarrow> int \<Rightarrow> int \<Rightarrow> int \<Rightarrow> jsdate" where
  "day_composer is_iso c0 c1 c2 =
     (let ymd = (is_iso \<or> \<not> (1 \<le> c0 \<and> c0 \<le> 31));
          year = (if ymd then c0 else c2);
          month = (if ymd then c1 else c0);
          day = (if ymd then c2 else c1);
          year' = (if is_iso then year
                   else if 0 \<le> year \<and> year \<le> 49 then year + 2000
                   else if 50 \<le> year \<and> year \<le> 99 then year + 1900
                   else year)
      in if 1 \<le> month \<and> month \<le> 12 \<and> 1 \<le> day \<and> day \<le> 31
         then (if is_iso then UTC (MakeDay year' (month - 1) day * msPerDay)
               else Local (MakeDay year' (month - 1) day * msPerDay))
         else InvalidDate)"

definition node_Date :: "jsstring \<Rightarrow> jsdate" where
  "node_Date s =
     (if matches_ymd s then
        (case map parseInt (split_on 45 s) of
           [Some c0, Some c1, Some c2] \<Rightarrow> day_composer True c0 c1 c2
         | _ \<Rightarrow> InvalidDate)
      else if matches_dmy s then
        (case map parseInt (split_on 47 s) of
           [Some c0, Some c1, Some c2] \<Rightarrow> day_composer False c0 c1 c2
         | _ \<Rightarrow> InvalidDate)
      else InvalidDate)"

section \<open>The column resolver\<close>

text \<open>
  The source resolves a field by a chain \<open>row[a1] || row[a2] || ... || default\<close>, written
  out at each use. \<open>or_chain\<close> evaluates such a chain from the left, as JavaScript does;
  \<open>resolve\<close> is the chain for a list of column labels and a default.
\<close>

fun or_chain :: "jsval list \<Rightarrow> jsval" where
  "or_chain [] = JUndefined"
| "or_chain [v] = v"
| "or_chain (v # w # vs) = or_chain (js_or v w # vs)"

definition resolve :: "row \<Rightarrow> jsstring list \<Rightarrow> jsval \<Rightarrow> jsval" where
  "resolve r aliases dflt = or_chain (map (col r) aliases @ [dflt])"

text \<open>The resolver as section 4.1 of the specification words it, for comparison with
  \<open>resolve\<close>: the value of the first alias that is present in the row, the default when
  no alias is present.\<close>

definition resolve_first_present :: "row \<Rightarrow> jsstring list \<Rightarrow> jsval \<Rightarrow> jsval" where
  "resolve_first_present r aliases dflt =
     (case find (\<lambda>a. r a \<noteq> None) aliases of None \<Rightarrow> dflt | Some a \<Rightarrow> col r a)"

section \<open>The Booksonix upload: merge on conflict\<close>

subsection \<open>Normalization of a row\<close>

definition booksonix_sku_value :: "row \<Rightarrow> jsval" where
  "booksonix_sku_value r =
     or_chain [col r (js ''SKU''), col r (js ''sku''), col r (js ''Sku''),
               col r (js ''Product SKU''), col r (js ''Product Code''),
               col r (js ''Item Code''), col r (js ''Code''), JStr []]"

text \<open>The cleaned SKU; the empty string when no alias holds a truthy value.\<close>

definition booksonix_sku :: "row \<Rightarrow> jsstring" where
  "booksonix_sku r =
     (let sku = booksonix_sku_value r
      in if truthy sku then trim (remove_char 45 (to_string sku)) else [])"

definition booksonix_isbn_value :: "row \<Rightarrow> jsval" where
  "booksonix_isbn_value r =
     or_chain [col r (js ''ISBN-13''), col r (js ''ISBN13''), col r (js ''isbn-13''),
               col r (js ''ISBN''), col r (js ''EAN''), JStr []]"

definition booksonix_isbn :: "row \<Rightarrow> jsstring" where
  "booksonix_isbn r =
     (let isbn = booksonix_isbn_value r
      in if truthy isbn then trim (remove_char 45 (to_string isbn)) else [])"

definition booksonix_title :: "row \<Rightarrow> jsval" where
  "booksonix_title r =
     or_chain [col r (js ''Title''), col r (js ''TITLE''), col r (js ''Product Title''), JStr []]"

definition booksonix_publisher :: "row \<Rightarrow> jsval" where
  "booksonix_publisher r =
     or_chain [col r (js ''Publishers''), col r (js ''Publisher''), col r (js ''PUBLISHER''),
               JStr []]"

definition booksonix_price_value :: "row \<Rightarrow> jsval" where
  "booksonix_price_value r =
     or_chain [col r (js ''Prices''), col r (js ''Price''), col r (js ''PRICE''),
               col r (js ''RRP''), JStr []]"

text \<open>The cleaning of the price text: GBP in any case, the pound sign, commas, then
  every character that is neither a digit nor a point, then trim.\<close>

definition clean_booksonix_price :: "jsstring \<Rightarrow> jsstring" where
  "clean_booksonix_price s =
     trim (filter (\<lambda>c. is_digit c \<or> c = 46) (remove_char 44 (remove_char 163 (remove_GBP s))))"

definition booksonix_price :: "row \<Rightarrow> jsnum" where
  "booksonix_price r =
     (let priceValue = booksonix_price_value r
      in if truthy priceValue
         then num_or_zero (parseFloat (clean_booksonix_price (to_string priceValue)))
         else Fin 0)"

text \<open>The parameters of the query, in the order of the source; the author is always the
  empty string and the quantity always 0.\<close>

record booksonix_params =
  p_sku :: jsstring
  p_isbn :: "jsstring option"
  p_title :: jsval
  p_author :: jsval
  p_publisher :: jsval
  p_price :: jsnum
  p_quantity :: int

definition booksonix_query_params :: "row \<Rightarrow> booksonix_params" where
  "booksonix_query_params r =
     \<lparr>p_sku = booksonix_sku r,
      p_isbn = (if booksonix_isbn r = [] then None else Some (booksonix_isbn r)),
      p_title = booksonix_title r,
      p_author = JStr [],
      p_publisher = booksonix_publisher r,
      p_price = booksonix_price r,
      p_quantity = 0\<rparr>"

subsection \<open>The table booksonix\_records and the upsert\<close>

text \<open>
  The table is a map from the sku, its unique key, to the columns that the upload
  writes. The serial id and the two timestamps are not modelled (they depend on the
  sequence and on the clock); the columns that the upload never writes are left out.
  Text parameters are stored as the driver sends them (\<open>to_string\<close>), a price is rounded
  to the two decimals of \<open>DECIMAL(10,2)\<close>.
\<close>

record booksonix_record =
  r_isbn :: "jsstring option"
  r_title :: jsstring
  r_author :: jsstring
  r_publisher :: jsstring
  r_price :: jsnum
  r_quantity :: int

type_synonym booksonix_table = "jsstring \<rightharpoonup> booksonix_record"

definition round2 :: "jsnum \<Rightarrow> jsnum" where
  "round2 n =
     (case n of
        Fin q \<Rightarrow> Fin (if 0 \<le> q then of_int \<lfloor>q * 100 + 1 / 2\<rfloor> / 100
                      else - (of_int \<lfloor>- q * 100 + 1 / 2\<rfloor> / 100))
      | other \<Rightarrow> other)"

text \<open>\<open>COALESCE(NULLIF(EXCLUDED.isbn, ''), booksonix_records.isbn)\<close>\<close>

definition coalesce_isbn :: "jsstring option \<Rightarrow> jsstring option \<Rightarrow> jsstring option" where
  "coalesce_isbn excluded old =
     (case excluded of None \<Rightarrow> old | Some i \<Rightarrow> if i = [] then old else Some i)"

text \<open>\<open>INSERT ... ON CONFLICT (sku) DO UPDATE SET ... RETURNING (xmax = 0) AS inserted\<close>:
  the new table and whether the row was inserted.\<close>

definition booksonix_upsert :: "booksonix_table \<Rightarrow> booksonix_params \<Rightarrow> booksonix_table \<times> bool" where
  "booksonix_upsert t p =
     (case t (p_sku p) of
        None \<Rightarrow>
          (t(p_sku p \<mapsto>
               \<lparr>r_isbn = p_isbn p,
                r_title = to_string (p_title p),
                r_author = to_string (p_author p),
                r_publisher = to_string (p_publisher p),
                r_price = round2 (p_price p),
                r_quantity = p_quantity p\<rparr>),
           True)
      | Some old \<Rightarrow>
          (t(p_sku p \<mapsto>
               old\<lparr>r_isbn := coalesce_isbn (p_isbn p) (r_isbn old),
                   r_title := to_string (p_title p),
                   r_publisher := to_string (p_publisher p),
                   r_price := round2 (p_price p)\<rparr>),
           False))"

text \<open>
  A query can fail (a value too long for its column, a numeric overflow, a lost
  connection). Which parameter tuples the store refuses is given by the predicate
  \<open>rejects\<close>; a refused query throws and changes nothing.
\<close>

datatype db_error = Unique_violation | Other_error

definition booksonix_query ::
  "(booksonix_params \<Rightarrow> bool) \<Rightarrow> booksonix_table \<Rightarrow> booksonix_params
     \<Rightarrow> db_error + booksonix_table \<times> bool" where
  "booksonix_query rejects t p = (if rejects p then Inl Other_error else Inr (booksonix_upsert t p))"

subsection \<open>The loop over the rows and the request handler\<close>

record booksonix_counters =
  newRecords :: nat
  duplicates :: nat
  errors :: nat
  skippedNoSku :: nat

definition booksonix_zero :: booksonix_counters where
  "booksonix_zero = \<lparr>newRecords = 0, duplicates = 0, errors = 0, skippedNoSku = 0\<rparr>"

text \<open>The body of the loop, for one row.\<close>

definition booksonix_row ::
  "(booksonix_params \<Rightarrow> bool) \<Rightarrow> booksonix_table \<times> booksonix_counters \<Rightarrow> row
     \<Rightarrow> booksonix_table \<times> booksonix_counters" where
  "booksonix_row rejects st r =
     (let t = fst st; c = snd st
      in if booksonix_sku r = []
         then (t, c\<lparr>skippedNoSku := skippedNoSku c + 1, errors := errors c + 1\<rparr>)
         else
           (case booksonix_query rejects t (booksonix_query_params r) of
              Inr (t', inserted) \<Rightarrow>
                if inserted then (t', c\<lparr>newRecords := newRecords c + 1\<rparr>)
                else (t', c\<lparr>duplicates := duplicates c + 1\<rparr>)
            | Inl err \<Rightarrow> (t, c\<lparr>errors := errors c + 1\<rparr>)))"

definition booksonix_rows ::
  "(booksonix_params \<Rightarrow> bool) \<Rightarrow> booksonix_table \<times> booksonix_counters \<Rightarrow> row list
     \<Rightarrow> booksonix_table \<times> booksonix_counters" where
  "booksonix_rows rejects st data = foldl (booksonix_row rejects) st data"

text \<open>The body of the response of the Booksonix route: the counts it reports. The
  counter \<open>skippedNoSku\<close> is not part of it.\<close>

record booksonix_summary =
  processed :: nat
  sum_newRecords :: nat
  sum_duplicates :: nat
  sum_errors :: nat

datatype 'a response = No_file_uploaded | Upload_done 'a | Upload_failed

text \<open>The transient files of the upload directory, and \<open>fs.unlinkSync\<close>, which throws
  when the file does not exist.\<close>

type_synonym files = "jsstring set"

definition unlinkSync :: "jsstring \<Rightarrow> files \<Rightarrow> unit + files" where
  "unlinkSync path fs = (if path \<in> fs then Inr (fs - {path}) else Inl ())"

text \<open>The catch block of both routes: unlink the file if it still exists.\<close>

definition cleanup_in_catch :: "jsstring \<Rightarrow> files \<Rightarrow> files" where
  "cleanup_in_catch path fs =
     (if path \<in> fs then (case unlinkSync path fs of Inr fs' \<Rightarrow> fs' | Inl u \<Rightarrow> fs) else fs)"

text \<open>
  The handler of \<open>POST /api/booksonix/upload\<close>. \<open>file\<close> is the path of the uploaded file,
  \<open>None\<close> when the request has no file; \<open>workbook\<close> is what reading the first sheet of the
  file gives, \<open>None\<close> when the reader throws. The state is the upload directory and the
  table.
\<close>

definition booksonix_upload ::
  "(booksonix_params \<Rightarrow> bool) \<Rightarrow> row list option \<Rightarrow> jsstring option
     \<Rightarrow> files \<times> booksonix_table \<Rightarrow> (files \<times> booksonix_table) \<times> booksonix_summary response" where
  "booksonix_upload rejects workbook file st =
     (case file of
        None \<Rightarrow> (st, No_file_uploaded)
      | Some path \<Rightarrow>
          (case workbook of
             None \<Rightarrow> ((cleanup_in_catch path (fst st), snd st), Upload_failed)
           | Some data \<Rightarrow>
               (let res = booksonix_rows rejects (snd st, booksonix_zero) data;
                    t' = fst res; c = snd res
                in case unlinkSync path (fst st) of
                     Inr fs' \<Rightarrow>
                       ((fs', t'),
                        Upload_done \<lparr>processed = length data, sum_newRecords = newRecords c,
                                     sum_duplicates = duplicates c, sum_errors = errors c\<rparr>)
                   | Inl u \<Rightarrow> ((cleanup_in_catch path (fst st), t'), Upload_failed))))"

section \<open>The Gazelle upload: plain insert\<close>

subsection \<open>Normalization of a row\<close>

definition gazelle_orderRef :: "row \<Rightarrow> jsstring" where
  "gazelle_orderRef r =
     trim (to_string (or_chain [col r (js ''Order Ref''), col r (js ''OrderRef''),
       col r (js ''order_ref''), col r (js ''Order Reference''), col r (js ''Order No''),
       col r (js ''Order Number''), JStr []]))"

definition gazelle_customerName :: "row \<Rightarrow> jsstring" where
  "gazelle_customerName r =
     trim (to_string (or_chain [col r (js ''Customer Name''), col r (js ''CustomerName''),
       col r (js ''customer_name''), col r (js ''Customer''), col r (js ''Retailer Name''),
       JStr []]))"

definition gazelle_city :: "row \<Rightarrow> jsstring" where
  "gazelle_city r =
     trim (to_string (or_chain [col r (js ''City''), col r (js ''city''), col r (js ''Town''),
       JStr []]))"

definition gazelle_country :: "row \<Rightarrow> jsstring" where
  "gazelle_country r =
     trim (to_string (or_chain [col r (js ''Country''), col r (js ''country''),
       col r (js ''Country Code''), JStr []]))"

definition gazelle_title :: "row \<Rightarrow> jsstring" where
  "gazelle_title r =
     trim (to_string (or_chain [col r (js ''Title''), col r (js ''title''),
       col r (js ''Book Title''), col r (js ''Product Title''), JStr []]))"

definition gazelle_isbn13 :: "row \<Rightarrow> jsstring" where
  "gazelle_isbn13 r =
     trim (remove_char 45 (to_string (or_chain [col r (js ''ISBN-13''), col r (js ''ISBN13''),
       col r (js ''isbn13''), col r (js ''ISBN''), col r (js ''EAN''), JStr []])))"

definition gazelle_publisher :: "row \<Rightarrow> jsstring" where
  "gazelle_publisher r =
     trim (to_string (or_chain [col r (js ''Publishers''), col r (js ''Publisher''),
       col r (js ''publisher''), JStr []]))"

definition gazelle_format :: "row \<Rightarrow> jsstring" where
  "gazelle_format r =
     trim (to_string (or_chain [col r (js ''Format''), col r (js ''format''),
       col r (js ''Book Format''), JStr []]))"

definition gazelle_quantity :: "row \<Rightarrow> int" where
  "gazelle_quantity r =
     (let quantityValue = or_chain [col r (js ''Quantity''), col r (js ''quantity''),
                                    col r (js ''Qty''), JNum (Fin 0)]
      in if truthy quantityValue
         then (case parseInt (filter (\<lambda>c. is_digit c \<or> c = 45) (to_string quantityValue)) of
                 None \<Rightarrow> 0 | Some n \<Rightarrow> n)
         else 0)"

definition gazelle_price_value :: "row \<Rightarrow> jsval" where
  "gazelle_price_value r =
     or_chain [col r (js ''Unit Price''), col r (js ''unit price''), col r (js ''Price''),
               JNum (Fin 0)]"

text \<open>The cleaning of the unit price text: the pound, dollar and euro signs and the
  commas are removed, then trim.\<close>

definition clean_gazelle_price :: "jsstring \<Rightarrow> jsstring" where
  "clean_gazelle_price s =
     trim (remove_char 44 (filter (\<lambda>c. c \<noteq> 163 \<and> c \<noteq> 36 \<and> c \<noteq> 8364) s))"

definition gazelle_unitPrice :: "row \<Rightarrow> jsnum" where
  "gazelle_unitPrice r =
     (let priceValue = gazelle_price_value r
      in if truthy priceValue
         then num_or_zero (parseFloat (clean_gazelle_price (to_string priceValue)))
         else Fin 0)"

definition gazelle_discount_value :: "row \<Rightarrow> jsval" where
  "gazelle_discount_value r =
     or_chain [col r (js ''Discount %''), col r (js ''Discount''), col r (js ''discount''),
               JNum (Fin 0)]"

definition gazelle_discount :: "row \<Rightarrow> jsnum" where
  "gazelle_discount r =
     (let discountValue = gazelle_discount_value r
      in if truthy discountValue
         then num_or_zero (parseFloat (remove_char 37 (to_string discountValue)))
         else Fin 0)"

definition gazelle_parsedDate :: "(jsstring \<Rightarrow> jsdate) \<Rightarrow> row \<Rightarrow> jsdate option" where
  "gazelle_parsedDate new_Date r =
     (let dateValue = or_chain [col r (js ''Order Date''), col r (js ''OrderDate''),
                                col r (js ''order_date''), col r (js ''Date'')]
      in if truthy dateValue then parseExcelDate new_Date (Inr dateValue) else None)"

subsection \<open>The table gazelle\_sales\<close>

text \<open>
  A stored row has the twelve columns that the insert writes (the serial id and the
  upload timestamp are not modelled). The two decimal columns are rounded to two
  decimals; the date is kept as the Date object that is passed.
\<close>

record gazelle_record =
  order_ref :: jsstring
  order_date :: "jsdate option"
  customer_name :: jsstring
  city :: jsstring
  country :: jsstring
  title :: jsstring
  isbn13 :: jsstring
  quantity :: int
  unit_price :: jsnum
  discount :: jsnum
  publisher :: jsstring
  format :: jsstring

definition gazelle_query_params :: "(jsstring \<Rightarrow> jsdate) \<Rightarrow> row \<Rightarrow> gazelle_record" where
  "gazelle_query_params new_Date r =
     \<lparr>order_ref = gazelle_orderRef r,
      order_date = gazelle_parsedDate new_Date r,
      customer_name = gazelle_customerName r,
      city = gazelle_city r,
      country = gazelle_country r,
      title = gazelle_title r,
      isbn13 = gazelle_isbn13 r,
      quantity = gazelle_quantity r,
      unit_price = gazelle_unitPrice r,
      discount = gazelle_discount r,
      publisher = gazelle_publisher r,
      format = gazelle_format r\<rparr>"

text \<open>
  A unique constraint of the table has a name and the text columns it ranges over. An
  insert violates it when a stored row agrees with the new one on all of them.
\<close>

datatype gazelle_column =
  Col_order_ref | Col_customer_name | Col_city | Col_country | Col_title | Col_isbn13
  | Col_publisher | Col_format

fun column_value :: "gazelle_column \<Rightarrow> gazelle_record \<Rightarrow> jsstring" where
  "column_value Col_order_ref g = order_ref g"
| "column_value Col_customer_name g = customer_name g"
| "column_value Col_city g = city g"
| "column_value Col_country g = country g"
| "column_value Col_title g = title g"
| "column_value Col_isbn13 g = isbn13 g"
| "column_value Col_publisher g = publisher g"
| "column_value Col_format g = format g"

record unique_constraint =
  constraint_name :: jsstring
  constraint_columns :: "gazelle_column list"

record gazelle_table =
  constraints :: "unique_constraint list"
  sales :: "gazelle_record list"

definition violates :: "gazelle_record list \<Rightarrow> gazelle_record \<Rightarrow> unique_constraint \<Rightarrow> bool" where
  "violates stored g u =
     list_ex (\<lambda>old. list_all (\<lambda>c. column_value c old = column_value c g) (constraint_columns u))
       stored"

text \<open>
  \<open>initGazelleTable\<close>: \<open>None\<close> is a database without the table. The table is created
  without a unique constraint; on an existing table the constraint named
  \<open>gazelle_sales_order_ref_isbn13_customer_name_key\<close> is dropped if it exists.
\<close>

definition initGazelleTable :: "gazelle_table option \<Rightarrow> gazelle_table" where
  "initGazelleTable db =
     (case db of
        None \<Rightarrow> \<lparr>constraints = [], sales = []\<rparr>
      | Some t \<Rightarrow>
          t\<lparr>constraints :=
              filter (\<lambda>u. constraint_name u \<noteq> js ''gazelle_sales_order_ref_isbn13_customer_name_key'')
                (constraints t)\<rparr>)"

text \<open>The table of the earlier revisions, with \<open>UNIQUE(order_ref, isbn13, customer_name)\<close>,
  which PostgreSQL names as above.\<close>

definition earlier_gazelle_table :: "gazelle_record list \<Rightarrow> gazelle_table" where
  "earlier_gazelle_table stored =
     \<lparr>constraints =
        [\<lparr>constraint_name = js ''gazelle_sales_order_ref_isbn13_customer_name_key'',
          constraint_columns = [Col_order_ref, Col_isbn13, Col_customer_name]\<rparr>],
      sales = stored\<rparr>"

definition store_decimals :: "gazelle_record \<Rightarrow> gazelle_record" where
  "store_decimals g = g\<lparr>unit_price := round2 (unit_price g), discount := round2 (discount g)\<rparr>"

text \<open>\<open>INSERT INTO gazelle_sales ... RETURNING id\<close>: a violated unique constraint gives the
  error 23505, a refused tuple another error, otherwise the row is appended.\<close>

definition gazelle_insert ::
  "(gazelle_record \<Rightarrow> bool) \<Rightarrow> gazelle_table \<Rightarrow> gazelle_record \<Rightarrow> db_error + gazelle_table" where
  "gazelle_insert rejects t g =
     (if rejects g then Inl Other_error
      else if list_ex (violates (sales t) (store_decimals g)) (constraints t)
      then Inl Unique_violation
      else Inr (t\<lparr>sales := sales t @ [store_decimals g]\<rparr>))"

subsection \<open>The loop over the rows and the request handler\<close>

record gazelle_counters =
  g_newRecords :: nat
  g_updatedRecords :: nat
  g_errors :: nat
  g_skippedRows :: nat
  g_errorDetails :: "nat list"

definition gazelle_zero :: gazelle_counters where
  "gazelle_zero =
     \<lparr>g_newRecords = 0, g_updatedRecords = 0, g_errors = 0, g_skippedRows = 0,
      g_errorDetails = []\<rparr>"

text \<open>The body of the loop for the row of index \<open>i\<close>: an entry of \<open>errorDetails\<close> is
  represented by its row number \<open>i + 1\<close>.\<close>

definition gazelle_row ::
  "(jsstring \<Rightarrow> jsdate) \<Rightarrow> (gazelle_record \<Rightarrow> bool) \<Rightarrow> gazelle_table \<times> gazelle_counters
     \<Rightarrow> nat \<times> row \<Rightarrow> gazelle_table \<times> gazelle_counters" where
  "gazelle_row new_Date rejects st ir =
     (let t = fst st; c = snd st; i = fst ir; r = snd ir
      in if gazelle_orderRef r = [] \<or> gazelle_customerName r = []
         then (t, c\<lparr>g_skippedRows := g_skippedRows c + 1\<rparr>)
         else
           (case gazelle_insert rejects t (gazelle_query_params new_Date r) of
              Inr t' \<Rightarrow> (t', c\<lparr>g_newRecords := g_newRecords c + 1\<rparr>)
            | Inl Unique_violation \<Rightarrow> (t, c\<lparr>g_updatedRecords := g_updatedRecords c + 1\<rparr>)
            | Inl Other_error \<Rightarrow>
                (t, c\<lparr>g_errors := g_errors c + 1,
                       g_errorDetails := g_errorDetails c @ [i + 1]\<rparr>)))"

definition gazelle_rows ::
  "(jsstring \<Rightarrow> jsdate) \<Rightarrow> (gazelle_record \<Rightarrow> bool) \<Rightarrow> gazelle_table \<times> gazelle_counters
     \<Rightarrow> row list \<Rightarrow> gazelle_table \<times> gazelle_counters" where
  "gazelle_rows new_Date rejects st rawData =
     foldl (gazelle_row new_Date rejects) st (zip [0 ..< length rawData] rawData)"

record gazelle_summary =
  totalRows :: nat
  det_newRecords :: nat
  det_updatedRecords :: nat
  det_skippedRows :: nat
  det_errors :: nat
  errorSample :: "nat list"

definition gazelle_upload ::
  "(jsstring \<Rightarrow> jsdate) \<Rightarrow> (gazelle_record \<Rightarrow> bool) \<Rightarrow> row list option \<Rightarrow> jsstring option
     \<Rightarrow> files \<times> gazelle_table \<Rightarrow> (files \<times> gazelle_table) \<times> gazelle_summary response" where
  "gazelle_upload new_Date rejects workbook file st =
     (case file of
        None \<Rightarrow> (st, No_file_uploaded)
      | Some path \<Rightarrow>
          (case workbook of
             None \<Rightarrow> ((cleanup_in_catch path (fst st), snd st), Upload_failed)
           | Some rawData \<Rightarrow>
               (let res = gazelle_rows new_Date rejects (snd st, gazelle_zero) rawData;
                    t' = fst res; c = snd res
                in case unlinkSync path (fst st) of
                     Inr fs' \<Rightarrow>
                       ((fs', t'),
                        Upload_done
                          \<lparr>totalRows = length rawData, det_newRecords = g_newRecords c,
                           det_updatedRecords = g_updatedRecords c,
                           det_skippedRows = g_skippedRows c, det_errors = g_errors c,
                           errorSample = take 5 (g_errorDetails c)\<rparr>)
                   | Inl u \<Rightarrow> ((cleanup_in_catch path (fst st), t'), Upload_failed))))"

subsection \<open>Auxiliary notions for the statements\<close>

text \<open>A row that reaches the insert and that the store accepts.\<close>

definition gazelle_stored ::
  "(jsstring \<Rightarrow> jsdate) \<Rightarrow> (gazelle_record \<Rightarrow> bool) \<Rightarrow> row \<Rightarrow> bool" where
  "gazelle_stored new_Date rejects r =
     (gazelle_orderRef r \<noteq> [] \<and> gazelle_customerName r \<noteq> []
      \<and> \<not> rejects (gazelle_query_params new_Date r))"

text \<open>A row that reaches the upsert and that the store accepts.\<close>

definition booksonix_stored :: "(booksonix_params \<Rightarrow> bool) \<Rightarrow> row \<Rightarrow> bool" where
  "booksonix_stored rejects r =
     (booksonix_sku r \<noteq> [] \<and> \<not> rejects (booksonix_query_params r))"

text \<open>The record that the upsert leaves under the key of the parameters, given what was
  stored there.\<close>

definition merge_into :: "booksonix_record option \<Rightarrow> booksonix_params \<Rightarrow> booksonix_record" where
  "merge_into stored p =
     (case stored of
        None \<Rightarrow>
          \<lparr>r_isbn = p_isbn p, r_title = to_string (p_title p), r_author = to_string (p_author p),
           r_publisher = to_string (p_publisher p), r_price = round2 (p_price p),
           r_quantity = p_quantity p\<rparr>
      | Some old \<Rightarrow>
          old\<lparr>r_isbn := coalesce_isbn (p_isbn p) (r_isbn old), r_title := to_string (p_title p),
              r_publisher := to_string (p_publisher p), r_price := round2 (p_price p)\<rparr>)"

text \<open>The parameters that have the effect of two upserts on the same key, one after the
  other.\<close>

definition combine :: "booksonix_params \<Rightarrow> booksonix_params \<Rightarrow> booksonix_params" where
  "combine p1 p2 =
     p2\<lparr>p_isbn := coalesce_isbn (p_isbn p2) (p_isbn p1), p_author := p_author p1,
        p_quantity := p_quantity p1\<rparr>"

text \<open>The net effect of a sequence of upserts, key by key, and its application.\<close>

definition net_add ::
  "(jsstring \<rightharpoonup> booksonix_params) \<Rightarrow> booksonix_params \<Rightarrow> (jsstring \<rightharpoonup> booksonix_params)" where
  "net_add E p = E(p_sku p \<mapsto> (case E (p_sku p) of None \<Rightarrow> p | Some p1 \<Rightarrow> combine p1 p))"

definition apply_net :: "booksonix_table \<Rightarrow> (jsstring \<rightharpoonup> booksonix_params) \<Rightarrow> booksonix_table" where
  "apply_net t E = (\<lambda>k. case E k of None \<Rightarrow> t k | Some p \<Rightarrow> Some (merge_into (t k) p))"

text \<open>The table after the upsert.\<close>

definition upsert_table :: "booksonix_table \<Rightarrow> booksonix_params \<Rightarrow> booksonix_table" where
  "upsert_table t p = fst (booksonix_upsert t p)"



section \<open>Evaluation on concrete inputs\<close>

lemmas str_eval = trim_def is_ws_def is_digit_def all_digits_def matches_dmy_def matches_ymd_def
  parseInt_def digits_val_def remove_char_def Let_def

lemmas date_eval = node_Date_def day_composer_def day_first_date_def Date_local_def MakeDay_def
  days_from_civil_def msPerDay_def

lemma floor_numeral_div: "\<lfloor>numeral a / numeral b :: rat\<rfloor> = numeral a div numeral b"
  using floor_divide_of_int_eq [of "numeral a" "numeral b", where ?'a = rat] by simp

lemma floor_one_div: "\<lfloor>1 / numeral b :: rat\<rfloor> = 1 div numeral b"
  using floor_divide_of_int_eq [of 1 "numeral b", where ?'a = rat] by simp

lemmas num_eval = round2_def num_or_zero_def floor_numeral_div floor_one_div

lemmas float_eval = parseFloat_def parse_unsigned_def exponent_of_def exp10_def num_neg_def
  is_letter_def clean_booksonix_price_def clean_gazelle_price_def

lemmas booksonix_eval = booksonix_sku_def booksonix_sku_value_def booksonix_isbn_def
  booksonix_isbn_value_def booksonix_title_def booksonix_publisher_def booksonix_price_def
  booksonix_price_value_def booksonix_query_params_def col_def js_or_def

lemmas loop_eval = booksonix_rows_def booksonix_row_def booksonix_query_def booksonix_upsert_def
  coalesce_isbn_def booksonix_zero_def


section \<open>Properties of the date normalizer\<close>

text \<open>Whatever the host's parser accepts is returned as the host reads it: the
  day-first branch is reached only by strings that the host's parser refuses.\<close>

lemma generic_parse_first:
  assumes "s \<noteq> []" and "new_Date (trim s) \<noteq> InvalidDate"
  shows "parseExcelDate new_Date (Inr (JStr s)) = Some (new_Date (trim s))"
  using assms by (simp add: parseExcelDate_def Let_def)

lemma day_first_after_generic:
  assumes "s \<noteq> []" and "new_Date (trim s) = InvalidDate" and "matches_dmy (trim s)"
    and "day_first_date (trim s) \<noteq> InvalidDate"
  shows "parseExcelDate new_Date (Inr (JStr s)) = Some (day_first_date (trim s))"
  using assms by (simp add: parseExcelDate_def Let_def)

lemma day_first_when_host_refuses:
  "parseExcelDate node_Date (Inr (JStr (js ''25/12/2024'')))
     = Some (Local (days_from_civil 2024 12 25 * msPerDay))"
  by (simp add: parseExcelDate_def str_eval date_eval)

text \<open>
  C1. The claim is that a string \<open>DD/MM/YYYY\<close> is always read day first, so that
  \<open>01/02/2025\<close> is the first of February 2025. The code gives the string to the host's
  parser before its own day-first branch, and Node reads it month first: the result is
  the second of January 2025, although the day-first extraction of the same string is
  the first of February.
\<close>

theorem parseExcelDate_slash_month_first:
  "parseExcelDate node_Date (Inr (JStr (js ''01/02/2025'')))
     = Some (Local (days_from_civil 2025 1 2 * msPerDay))
   \<and> parseExcelDate node_Date (Inr (JStr (js ''01/02/2025'')))
     \<noteq> Some (Local (days_from_civil 2025 2 1 * msPerDay))
   \<and> day_first_date (js ''01/02/2025'') = Local (days_from_civil 2025 2 1 * msPerDay)"
  by (simp add: parseExcelDate_def str_eval date_eval)




section \<open>Properties of the column resolver\<close>

lemma or_chain_Cons: "or_chain (v # vs) = (if truthy v \<or> vs = [] then v else or_chain vs)"
proof (induction vs arbitrary: v)
  case Nil
  then show ?case by simp
next
  case (Cons w ws)
  show ?case
    by (simp add: Cons.IH js_or_def)
qed

lemma resolve_Nil: "resolve r [] dflt = dflt"
  by (simp add: resolve_def)

lemma resolve_Cons:
  "resolve r (a # as) dflt = (if truthy (col r a) then col r a else resolve r as dflt)"
  by (simp add: resolve_def or_chain_Cons)

lemma resolve_find:
  "resolve r aliases dflt =
     (case find (\<lambda>a. truthy (col r a)) aliases of None \<Rightarrow> dflt | Some a \<Rightarrow> col r a)"
  by (induction aliases) (simp_all add: resolve_Nil resolve_Cons)

text \<open>
  C8, as amended. The resolver returns the value of the first alias, in declared order
  and by exact label, whose value in the row is truthy, and the default when no alias
  holds a truthy value; it is a total function of the row and the aliases. The chains
  of the two routes are instances of it.
\<close>

theorem resolve_first_truthy:
  "resolve r aliases dflt =
     (case find (\<lambda>a. truthy (col r a)) aliases of None \<Rightarrow> dflt | Some a \<Rightarrow> col r a)
   \<and> booksonix_sku_value r =
       resolve r [js ''SKU'', js ''sku'', js ''Sku'', js ''Product SKU'', js ''Product Code'',
                  js ''Item Code'', js ''Code''] (JStr [])
   \<and> gazelle_orderRef r =
       trim (to_string (resolve r [js ''Order Ref'', js ''OrderRef'', js ''order_ref'',
                  js ''Order Reference'', js ''Order No'', js ''Order Number''] (JStr [])))"
proof (intro conjI)
  show "resolve r aliases dflt =
     (case find (\<lambda>a. truthy (col r a)) aliases of None \<Rightarrow> dflt | Some a \<Rightarrow> col r a)"
    by (rule resolve_find)
  show "booksonix_sku_value r =
       resolve r [js ''SKU'', js ''sku'', js ''Sku'', js ''Product SKU'', js ''Product Code'',
                  js ''Item Code'', js ''Code''] (JStr [])"
    unfolding booksonix_sku_value_def resolve_def by simp
  show "gazelle_orderRef r =
       trim (to_string (resolve r [js ''Order Ref'', js ''OrderRef'', js ''order_ref'',
                  js ''Order Reference'', js ''Order No'', js ''Order Number''] (JStr [])))"
    unfolding gazelle_orderRef_def resolve_def by simp
qed

text \<open>C8 as stated fails on a row whose first present alias holds an empty cell: the
  resolver does not return that value (the first present match) but goes on to the next
  alias, and the row is accepted with the SKU of the second column.\<close>

theorem resolve_skips_present_empty:
  "resolve (map_of [(js ''SKU'', JStr []), (js ''sku'', JStr (js ''X''))])
      [js ''SKU'', js ''sku''] (JStr []) = JStr (js ''X'')
   \<and> resolve_first_present (map_of [(js ''SKU'', JStr []), (js ''sku'', JStr (js ''X''))])
      [js ''SKU'', js ''sku''] (JStr []) = JStr []
   \<and> booksonix_sku (map_of [(js ''SKU'', JStr []), (js ''sku'', JStr (js ''X''))]) = js ''X''"
  by (simp add: resolve_def resolve_first_present_def col_def js_or_def booksonix_sku_def
        booksonix_sku_value_def str_eval)


section \<open>Properties of the Booksonix merge\<close>

text \<open>
  C2, as amended. When the sku of the incoming row matches a stored entity, the isbn
  keeps its stored value when the incoming isbn is null or empty and is overwritten
  otherwise; title, publisher and price are overwritten by the incoming values, empty
  or not; author and quantity keep their stored values; no other entity changes and the
  row is reported as not inserted.
\<close>

theorem upsert_existing_merge:
  assumes "t (p_sku p) = Some old"
  shows "booksonix_upsert t p =
           (t(p_sku p \<mapsto>
              \<lparr>r_isbn = (case p_isbn p of None \<Rightarrow> r_isbn old
                         | Some i \<Rightarrow> if i = [] then r_isbn old else Some i),
               r_title = to_string (p_title p),
               r_author = r_author old,
               r_publisher = to_string (p_publisher p),
               r_price = round2 (p_price p),
               r_quantity = r_quantity old\<rparr>),
            False)"
  using assms
  by (cases old) (auto simp add: booksonix_upsert_def coalesce_isbn_def split: option.splits)

lemma sku_only_row:
  "booksonix_sku (map_of [(js ''SKU'', JStr (js ''ABC''))]) = js ''ABC''"
  by (simp add: booksonix_sku_def booksonix_sku_value_def col_def js_or_def str_eval)

lemma sku_only_params:
  "booksonix_query_params (map_of [(js ''SKU'', JStr (js ''ABC''))]) =
     \<lparr>p_sku = js ''ABC'', p_isbn = None, p_title = JStr [], p_author = JStr [],
      p_publisher = JStr [], p_price = Fin 0, p_quantity = 0\<rparr>"
  by (simp add: booksonix_query_params_def sku_only_row[simplified] booksonix_isbn_def
      booksonix_isbn_value_def booksonix_title_def booksonix_publisher_def booksonix_price_def
      booksonix_price_value_def col_def js_or_def)

text \<open>C2 as stated fails for the title, the publisher and the price: a row that has
  only its SKU column empties the stored title and publisher and sets the price to 0.\<close>

theorem blank_title_overwrites:
  "fst (booksonix_row (\<lambda>p. False)
          ([js ''ABC'' \<mapsto> \<lparr>r_isbn = Some (js ''978''), r_title = js ''Old'', r_author = [],
                             r_publisher = js ''Pub'', r_price = Fin 5, r_quantity = 0\<rparr>],
           booksonix_zero)
          (map_of [(js ''SKU'', JStr (js ''ABC''))])) (js ''ABC'')
     = Some \<lparr>r_isbn = Some (js ''978''), r_title = [], r_author = [],
              r_publisher = [], r_price = Fin 0, r_quantity = 0\<rparr>"
  by (simp add: booksonix_row_def booksonix_query_def sku_only_row[simplified]
      sku_only_params[simplified] booksonix_upsert_def coalesce_isbn_def num_eval)

theorem upsert_existing_merge_witness:
  "[js ''ABC'' \<mapsto> \<lparr>r_isbn = Some (js ''978''), r_title = js ''Old'', r_author = js ''A'',
                     r_publisher = js ''Pub'', r_price = Fin 5, r_quantity = 3\<rparr>] (js ''ABC'')
     = Some \<lparr>r_isbn = Some (js ''978''), r_title = js ''Old'', r_author = js ''A'',
                     r_publisher = js ''Pub'', r_price = Fin 5, r_quantity = 3\<rparr>
   \<and> booksonix_upsert
        [js ''ABC'' \<mapsto> \<lparr>r_isbn = Some (js ''978''), r_title = js ''Old'', r_author = js ''A'',
                     r_publisher = js ''Pub'', r_price = Fin 5, r_quantity = 3\<rparr>]
        \<lparr>p_sku = js ''ABC'', p_isbn = None, p_title = JStr (js ''New''), p_author = JStr [],
         p_publisher = JStr [], p_price = Fin 7, p_quantity = 0\<rparr>
     = ([js ''ABC'' \<mapsto> \<lparr>r_isbn = Some (js ''978''), r_title = js ''New'', r_author = js ''A'',
                     r_publisher = [], r_price = Fin 7, r_quantity = 3\<rparr>], False)"
  using upsert_existing_merge
    [of "[js ''ABC'' \<mapsto> \<lparr>r_isbn = Some (js ''978''), r_title = js ''Old'', r_author = js ''A'',
                     r_publisher = js ''Pub'', r_price = Fin 5, r_quantity = 3\<rparr>]"
        "\<lparr>p_sku = js ''ABC'', p_isbn = None, p_title = JStr (js ''New''), p_author = JStr [],
         p_publisher = JStr [], p_price = Fin 7, p_quantity = 0\<rparr>"
        "\<lparr>r_isbn = Some (js ''978''), r_title = js ''Old'', r_author = js ''A'',
                     r_publisher = js ''Pub'', r_price = Fin 5, r_quantity = 3\<rparr>"]
  by (simp add: num_eval)


section \<open>Rows without a natural key\<close>

lemma empty_row_cols: "col Map.empty k = JUndefined"
  by (simp add: col_def)

lemma empty_row_sku: "booksonix_sku Map.empty = []"
  by (simp add: booksonix_sku_def booksonix_sku_value_def empty_row_cols js_or_def)

lemma empty_row_orderRef: "gazelle_orderRef Map.empty = []"
  by (simp add: gazelle_orderRef_def empty_row_cols js_or_def trim_def)

text \<open>
  C4, as amended. A row whose natural key is empty after normalization (the sku in the
  Booksonix route; the order reference or the customer name in the Gazelle route) leaves
  the table as it is and does not count as new or updated. The Gazelle route counts it
  in \<open>skippedRows\<close> and not in \<open>errors\<close>; the Booksonix route counts it in
  \<open>skippedNoSku\<close> and also in \<open>errors\<close>, the counter of the write errors.
\<close>

theorem no_key_row_is_skipped:
  "(booksonix_sku r = [] \<longrightarrow>
      booksonix_row rejects (t, c) r
        = (t, c\<lparr>skippedNoSku := skippedNoSku c + 1, errors := errors c + 1\<rparr>))
   \<and> (gazelle_orderRef r = [] \<or> gazelle_customerName r = [] \<longrightarrow>
      gazelle_row new_Date grejects (gt, gc) (i, r)
        = (gt, gc\<lparr>g_skippedRows := g_skippedRows gc + 1\<rparr>))"
  by (simp add: booksonix_row_def gazelle_row_def)

theorem no_key_row_is_skipped_witness:
  "booksonix_sku Map.empty = []
   \<and> booksonix_row (\<lambda>p. False) (Map.empty, booksonix_zero) Map.empty
       = (Map.empty, \<lparr>newRecords = 0, duplicates = 0, errors = 1, skippedNoSku = 1\<rparr>)
   \<and> gazelle_orderRef Map.empty = []
   \<and> gazelle_row node_Date (\<lambda>g. False) (initGazelleTable None, gazelle_zero) (0, Map.empty)
       = (initGazelleTable None,
          \<lparr>g_newRecords = 0, g_updatedRecords = 0, g_errors = 0, g_skippedRows = 1,
           g_errorDetails = []\<rparr>)"
  using no_key_row_is_skipped
    [of Map.empty "\<lambda>p. False" Map.empty booksonix_zero node_Date "\<lambda>g. False"
        "initGazelleTable None" gazelle_zero 0]
  by (simp add: empty_row_sku empty_row_orderRef booksonix_zero_def gazelle_zero_def)

text \<open>C4 as stated fails in the Booksonix route: its summary has no count of the rows
  without a key, and a row without a key gives the same summary as a row that the store
  refuses: one error.\<close>

theorem booksonix_no_key_counted_as_error:
  "snd (booksonix_upload (\<lambda>p. False) (Some [Map.empty]) (Some (js ''uploads/f1''))
          ({js ''uploads/f1''}, Map.empty))
     = Upload_done \<lparr>processed = 1, sum_newRecords = 0, sum_duplicates = 0, sum_errors = 1\<rparr>
   \<and> snd (booksonix_upload (\<lambda>p. True) (Some [map_of [(js ''SKU'', JStr (js ''ABC''))]])
          (Some (js ''uploads/f1'')) ({js ''uploads/f1''}, Map.empty))
     = Upload_done \<lparr>processed = 1, sum_newRecords = 0, sum_duplicates = 0, sum_errors = 1\<rparr>"
  by (simp add: booksonix_upload_def booksonix_rows_def booksonix_row_def booksonix_query_def
      empty_row_sku sku_only_row[simplified] unlinkSync_def booksonix_zero_def Let_def)

section \<open>Cleanup of the uploaded file\<close>

text \<open>
  C9. When the request has a file, the file is not in the upload directory after the
  handler, in both routes and on every path: rows all stored, rows skipped or refused,
  the reader throwing, and even the unlink throwing because the file is already gone.
\<close>

theorem uploaded_file_removed:
  "path \<notin> fst (fst (booksonix_upload rejects workbook (Some path) (fs, t)))
   \<and> path \<notin> fst (fst (gazelle_upload new_Date grejects gworkbook (Some path) (fs, gt)))"
  by (simp add: booksonix_upload_def gazelle_upload_def unlinkSync_def cleanup_in_catch_def
      Let_def split: option.splits)

text \<open>The three outcomes of the claim at concrete requests: all rows stored; a refused
  row and a row without key; the reader throwing.\<close>

theorem uploaded_file_removed_witness:
  "js ''uploads/f1'' \<notin> fst (fst (booksonix_upload (\<lambda>p. False)
        (Some [map_of [(js ''SKU'', JStr (js ''ABC''))]]) (Some (js ''uploads/f1''))
        ({js ''uploads/f1''}, Map.empty)))
   \<and> js ''uploads/f1'' \<notin> fst (fst (booksonix_upload (\<lambda>p. True)
        (Some [map_of [(js ''SKU'', JStr (js ''ABC''))], Map.empty]) (Some (js ''uploads/f1''))
        ({js ''uploads/f1''}, Map.empty)))
   \<and> js ''uploads/f1'' \<notin> fst (fst (booksonix_upload (\<lambda>p. False)
        None (Some (js ''uploads/f1'')) ({js ''uploads/f1''}, Map.empty)))
   \<and> js ''uploads/f1'' \<notin> fst (fst (gazelle_upload node_Date (\<lambda>g. False)
        None (Some (js ''uploads/f1'')) ({js ''uploads/f1''}, initGazelleTable None)))
   \<and> js ''uploads/f1'' \<notin> fst (fst (gazelle_upload node_Date (\<lambda>g. True)
        (Some [Map.empty]) (Some (js ''uploads/f1'')) ({js ''uploads/f1''}, initGazelleTable None)))"
  using
    uploaded_file_removed [of "js ''uploads/f1''" "\<lambda>p. False"
      "Some [map_of [(js ''SKU'', JStr (js ''ABC''))]]" "{js ''uploads/f1''}" Map.empty
      node_Date "\<lambda>g. False" None "initGazelleTable None"]
    uploaded_file_removed [of "js ''uploads/f1''" "\<lambda>p. True"
      "Some [map_of [(js ''SKU'', JStr (js ''ABC''))], Map.empty]" "{js ''uploads/f1''}" Map.empty
      node_Date "\<lambda>g. True" "Some [Map.empty]" "initGazelleTable None"]
    uploaded_file_removed [of "js ''uploads/f1''" "\<lambda>p. False"
      None "{js ''uploads/f1''}" Map.empty
      node_Date "\<lambda>g. False" None "initGazelleTable None"]
  by simp


section \<open>The Gazelle insert without unique constraint\<close>






lemma order_row_stored:
  "gazelle_stored node_Date (\<lambda>g. False)
     (map_of [(js ''Order Ref'', JStr (js ''A1'')), (js ''Customer Name'', JStr (js ''Shop''))])"
  by (simp add: gazelle_stored_def gazelle_orderRef_def gazelle_customerName_def col_def
      js_or_def str_eval)


text \<open>With the unique constraint of the earlier revisions still on the table, the second
  ingestion of the same row would be reported as a duplicate.\<close>

lemma earlier_table_reports_duplicate:
  "g_updatedRecords (snd (gazelle_rows node_Date (\<lambda>g. False)
        (fst (gazelle_rows node_Date (\<lambda>g. False) (earlier_gazelle_table [], gazelle_zero)
               [map_of [(js ''Order Ref'', JStr (js ''A1'')), (js ''Customer Name'', JStr (js ''Shop''))]]),
         gazelle_zero)
        [map_of [(js ''Order Ref'', JStr (js ''A1'')), (js ''Customer Name'', JStr (js ''Shop''))]])) = 1"
  using order_row_stored
  by (simp add: gazelle_rows_def gazelle_row_def gazelle_insert_def gazelle_stored_def
      earlier_gazelle_table_def violates_def store_decimals_def gazelle_zero_def Let_def)


section \<open>The end-to-end scenario of the Booksonix upload\<close>


lemma price5: "num_or_zero (parseFloat (clean_booksonix_price (163 # js ''5.00''))) = Fin 5"
  by (simp add: float_eval str_eval num_eval)

lemma scenario_row1:
  "booksonix_query_params (map_of [(js ''sku'', JStr (js ''ABC-123'')), (js ''Price'', JStr (163 # js ''5.00''))])
     = \<lparr>p_sku = js ''ABC123'', p_isbn = None, p_title = JStr [], p_author = JStr [],
        p_publisher = JStr [], p_price = Fin 5, p_quantity = 0\<rparr>"
  by (simp add: booksonix_eval float_eval str_eval num_eval)

lemma scenario_row2:
  "booksonix_sku (map_of [(js ''sku'', JStr []), (js ''Price'', JStr (163 # js ''1.00''))]) = []"
  by (simp add: booksonix_eval)

lemma scenario_row3:
  "booksonix_query_params (map_of [(js ''sku'', JStr (js ''ABC-123'')), (js ''Price'', JStr (163 # js ''7.00''))])
     = \<lparr>p_sku = js ''ABC123'', p_isbn = None, p_title = JStr [], p_author = JStr [],
        p_publisher = JStr [], p_price = Fin 7, p_quantity = 0\<rparr>"
  by (simp add: booksonix_eval float_eval str_eval num_eval)

lemma scenario_sku:
  "booksonix_sku (map_of [(js ''sku'', JStr (js ''ABC-123'')), (js ''Price'', JStr (163 # js ''5.00''))]) = js ''ABC123''"
  "booksonix_sku (map_of [(js ''sku'', JStr (js ''ABC-123'')), (js ''Price'', JStr (163 # js ''7.00''))]) = js ''ABC123''"
  by (simp_all add: booksonix_eval str_eval)

lemma scenario_first_row:
  "booksonix_rows (\<lambda>p. False) (Map.empty, booksonix_zero)
      [map_of [(js ''sku'', JStr (js ''ABC-123'')), (js ''Price'', JStr (163 # js ''5.00''))]]
     = ([js ''ABC123'' \<mapsto> \<lparr>r_isbn = None, r_title = [], r_author = [], r_publisher = [],
                                r_price = Fin 5, r_quantity = 0\<rparr>],
        \<lparr>newRecords = 1, duplicates = 0, errors = 0, skippedNoSku = 0\<rparr>)"
  by (simp add: loop_eval scenario_row1[simplified] scenario_sku[simplified] num_eval)

lemma scenario_loop:
  "booksonix_rows (\<lambda>p. False) (Map.empty, booksonix_zero)
      [map_of [(js ''sku'', JStr (js ''ABC-123'')), (js ''Price'', JStr (163 # js ''5.00''))],
       map_of [(js ''sku'', JStr []), (js ''Price'', JStr (163 # js ''1.00''))],
       map_of [(js ''sku'', JStr (js ''ABC-123'')), (js ''Price'', JStr (163 # js ''7.00''))]]
     = ([js ''ABC123'' \<mapsto> \<lparr>r_isbn = None, r_title = [], r_author = [], r_publisher = [],
                                r_price = Fin 7, r_quantity = 0\<rparr>],
        \<lparr>newRecords = 1, duplicates = 1, errors = 1, skippedNoSku = 1\<rparr>)"
  by (simp add: loop_eval scenario_row1[simplified] scenario_row2[simplified]
      scenario_row3[simplified] scenario_sku[simplified] num_eval)

text \<open>
  C6, as amended. The sheet of three rows whose columns are labelled \<open>sku\<close> and
  \<open>Price\<close>, ingested into an empty table: after the first row there is one new entity,
  of sku \<open>ABC123\<close> and price 5; after the three rows there is still this one entity,
  one row was counted new, one updated and one, without key, skipped (and counted as an
  error), and the stored price is 7. The request ends with the file removed and the
  summary of 3 rows: 1 new, 1 updated, 1 error.
\<close>

theorem three_row_sheet:
  "booksonix_rows (\<lambda>p. False) (Map.empty, booksonix_zero)
      [map_of [(js ''sku'', JStr (js ''ABC-123'')), (js ''Price'', JStr (163 # js ''5.00''))]]
     = ([js ''ABC123'' \<mapsto> \<lparr>r_isbn = None, r_title = [], r_author = [], r_publisher = [],
                                r_price = Fin 5, r_quantity = 0\<rparr>],
        \<lparr>newRecords = 1, duplicates = 0, errors = 0, skippedNoSku = 0\<rparr>)
   \<and> booksonix_rows (\<lambda>p. False) (Map.empty, booksonix_zero)
      [map_of [(js ''sku'', JStr (js ''ABC-123'')), (js ''Price'', JStr (163 # js ''5.00''))],
       map_of [(js ''sku'', JStr []), (js ''Price'', JStr (163 # js ''1.00''))],
       map_of [(js ''sku'', JStr (js ''ABC-123'')), (js ''Price'', JStr (163 # js ''7.00''))]]
     = ([js ''ABC123'' \<mapsto> \<lparr>r_isbn = None, r_title = [], r_author = [], r_publisher = [],
                                r_price = Fin 7, r_quantity = 0\<rparr>],
        \<lparr>newRecords = 1, duplicates = 1, errors = 1, skippedNoSku = 1\<rparr>)
   \<and> booksonix_upload (\<lambda>p. False)
      (Some [map_of [(js ''sku'', JStr (js ''ABC-123'')), (js ''Price'', JStr (163 # js ''5.00''))],
             map_of [(js ''sku'', JStr []), (js ''Price'', JStr (163 # js ''1.00''))],
             map_of [(js ''sku'', JStr (js ''ABC-123'')), (js ''Price'', JStr (163 # js ''7.00''))]])
      (Some (js ''uploads/f1'')) ({js ''uploads/f1''}, Map.empty)
     = (({}, [js ''ABC123'' \<mapsto> \<lparr>r_isbn = None, r_title = [], r_author = [], r_publisher = [],
                                       r_price = Fin 7, r_quantity = 0\<rparr>]),
        Upload_done \<lparr>processed = 3, sum_newRecords = 1, sum_duplicates = 1, sum_errors = 1\<rparr>)"
  by (simp add: booksonix_upload_def scenario_first_row[simplified] scenario_loop[simplified]
      unlinkSync_def Let_def)

text \<open>Cells that hold numbers pass through \<open>String\<close>: a numeric SKU keeps its digits, a
  numeric price its value.\<close>

lemma numeric_sku:
  "booksonix_sku (map_of [(js ''SKU'', JNum (Fin 9781234567890))]) = js ''9781234567890''"
  by (simp add: booksonix_eval str_eval num_to_string_def show_nat.simps)

lemma decimal_price_cell:
  "booksonix_price (map_of [(js ''Price'', JNum (Fin (599 / 100)))]) = Fin (599 / 100)"
  by (simp add: booksonix_eval float_eval str_eval num_eval num_to_string_def show_nat.simps
      frac_digits.simps)

lemma literal_row1:
  "booksonix_query_params (map_of [(js ''sku'', JStr (js ''ABC-123'')), (js ''price'', JStr (163 # js ''5.00''))])
     = \<lparr>p_sku = js ''ABC123'', p_isbn = None, p_title = JStr [], p_author = JStr [],
        p_publisher = JStr [], p_price = Fin 0, p_quantity = 0\<rparr>"
  by (simp add: booksonix_eval str_eval)

lemma literal_row2:
  "booksonix_sku (map_of [(js ''sku'', JStr []), (js ''price'', JStr (163 # js ''1.00''))]) = []"
  by (simp add: booksonix_eval)

lemma literal_row3:
  "booksonix_query_params (map_of [(js ''sku'', JStr (js ''ABC-123'')), (js ''price'', JStr (163 # js ''7.00''))])
     = \<lparr>p_sku = js ''ABC123'', p_isbn = None, p_title = JStr [], p_author = JStr [],
        p_publisher = JStr [], p_price = Fin 0, p_quantity = 0\<rparr>"
  by (simp add: booksonix_eval str_eval)

lemma literal_sku:
  "booksonix_sku (map_of [(js ''sku'', JStr (js ''ABC-123'')), (js ''price'', JStr (163 # js ''5.00''))]) = js ''ABC123''"
  "booksonix_sku (map_of [(js ''sku'', JStr (js ''ABC-123'')), (js ''price'', JStr (163 # js ''7.00''))]) = js ''ABC123''"
  by (simp_all add: booksonix_eval str_eval)

text \<open>C6 as stated, with the price column labelled \<open>price\<close> in lower case: the label
  is not among the aliases of the price, so the stored price is 0 throughout.\<close>

theorem lowercase_price_label_ignored:
  "booksonix_rows (\<lambda>p. False) (Map.empty, booksonix_zero)
      [map_of [(js ''sku'', JStr (js ''ABC-123'')), (js ''price'', JStr (163 # js ''5.00''))],
       map_of [(js ''sku'', JStr []), (js ''price'', JStr (163 # js ''1.00''))],
       map_of [(js ''sku'', JStr (js ''ABC-123'')), (js ''price'', JStr (163 # js ''7.00''))]]
     = ([js ''ABC123'' \<mapsto> \<lparr>r_isbn = None, r_title = [], r_author = [], r_publisher = [],
                                r_price = Fin 0, r_quantity = 0\<rparr>],
        \<lparr>newRecords = 1, duplicates = 1, errors = 1, skippedNoSku = 1\<rparr>)"
  by (simp add: loop_eval literal_row1[simplified] literal_row2[simplified]
      literal_row3[simplified] literal_sku[simplified] num_eval)


section \<open>Sign of the currency and percentage fields\<close>




















section \<open>Ingesting the same file again\<close>

lemma upsert_table_merge: "upsert_table t p = t(p_sku p \<mapsto> merge_into (t (p_sku p)) p)"
  by (simp add: upsert_table_def booksonix_upsert_def merge_into_def split: option.splits)

lemma upsert_inserted: "snd (booksonix_upsert t p) = (t (p_sku p) = None)"
  by (simp add: booksonix_upsert_def split: option.splits)

lemma coalesce_assoc:
  "coalesce_isbn i2 (coalesce_isbn i1 old) = coalesce_isbn (coalesce_isbn i2 i1) old"
  by (simp add: coalesce_isbn_def split: option.splits)

lemma merge_into_twice:
  "merge_into (Some (merge_into x p1)) p2 = merge_into x (combine p1 p2)"
  by (cases x) (simp_all add: merge_into_def combine_def coalesce_assoc)

lemma merge_into_idem: "merge_into (Some (merge_into x p)) p = merge_into x p"
  by (cases x) (auto simp add: merge_into_def coalesce_isbn_def split: option.splits)

lemma apply_net_empty: "apply_net t Map.empty = t"
  by (simp add: apply_net_def)

lemma upsert_apply_net: "upsert_table (apply_net t E) p = apply_net t (net_add E p)"
proof (rule ext)
  fix k
  show "upsert_table (apply_net t E) p k = apply_net t (net_add E p) k"
  proof (cases "k = p_sku p")
    case False
    then show ?thesis
      by (simp add: upsert_table_merge apply_net_def net_add_def)
  next
    case True
    then show ?thesis
      by (cases "E (p_sku p)")
         (simp_all add: upsert_table_merge apply_net_def net_add_def merge_into_twice)
  qed
qed

lemma foldl_upsert_apply_net:
  "foldl upsert_table (apply_net t E) ps = apply_net t (foldl net_add E ps)"
  by (induction ps arbitrary: E) (simp_all add: upsert_apply_net)

lemma apply_net_idem: "apply_net (apply_net t E) E = apply_net t E"
  by (rule ext) (simp add: apply_net_def merge_into_idem split: option.splits)

lemma foldl_upsert_twice:
  "foldl upsert_table (foldl upsert_table t ps) ps = foldl upsert_table t ps"
proof -
  let ?N = "foldl net_add Map.empty ps"
  have one: "foldl upsert_table t ps = apply_net t ?N"
    using foldl_upsert_apply_net [of t Map.empty ps] by (simp add: apply_net_empty)
  have "foldl upsert_table (apply_net t ?N) ps = apply_net (apply_net t ?N) ?N"
    using foldl_upsert_apply_net [of "apply_net t ?N" Map.empty ps] by (simp add: apply_net_empty)
  then show ?thesis
    by (simp add: one apply_net_idem)
qed

lemma dom_upsert_table: "dom (upsert_table t p) = insert (p_sku p) (dom t)"
  by (simp add: upsert_table_merge)

lemma dom_foldl_upsert: "dom (foldl upsert_table t ps) = dom t \<union> p_sku ` set ps"
  by (induction ps arbitrary: t) (auto simp add: dom_upsert_table)

lemma params_sku: "p_sku (booksonix_query_params r) = booksonix_sku r"
  by (simp add: booksonix_query_params_def)

lemma booksonix_row_cases:
  "booksonix_row rej (t, c) r =
     (if booksonix_sku r = []
      then (t, c\<lparr>skippedNoSku := skippedNoSku c + 1, errors := errors c + 1\<rparr>)
      else if rej (booksonix_query_params r) then (t, c\<lparr>errors := errors c + 1\<rparr>)
      else if t (booksonix_sku r) = None
      then (upsert_table t (booksonix_query_params r), c\<lparr>newRecords := newRecords c + 1\<rparr>)
      else (upsert_table t (booksonix_query_params r), c\<lparr>duplicates := duplicates c + 1\<rparr>))"
  by (simp add: booksonix_row_def booksonix_query_def upsert_table_def booksonix_upsert_def
      params_sku split: option.splits)

lemma booksonix_rows_table:
  "fst (booksonix_rows rej (t, c) data)
     = foldl upsert_table t (map booksonix_query_params (filter (booksonix_stored rej) data))"
proof (induction data arbitrary: t c)
  case Nil
  then show ?case by (simp add: booksonix_rows_def)
next
  case (Cons r data)
  have step: "booksonix_rows rej (t, c) (r # data)
      = booksonix_rows rej (booksonix_row rej (t, c) r) data"
    by (simp add: booksonix_rows_def)
  show ?case
    unfolding step
    by (simp add: booksonix_row_cases Cons.IH booksonix_stored_def)
qed

lemma booksonix_rows_known_keys:
  assumes "\<forall>r \<in> set data. booksonix_stored rej r \<longrightarrow> booksonix_sku r \<in> dom t"
  shows "newRecords (snd (booksonix_rows rej (t, c) data)) = newRecords c
     \<and> duplicates (snd (booksonix_rows rej (t, c) data))
         = duplicates c + length (filter (booksonix_stored rej) data)
     \<and> errors (snd (booksonix_rows rej (t, c) data))
         = errors c + length (filter (\<lambda>r. \<not> booksonix_stored rej r) data)"
  using assms
proof (induction data arbitrary: t c)
  case Nil
  then show ?case by (simp add: booksonix_rows_def)
next
  case (Cons r data)
  have step: "booksonix_rows rej (t, c) (r # data)
      = booksonix_rows rej (booksonix_row rej (t, c) r) data"
    by (simp add: booksonix_rows_def)
  show ?case
  proof (cases "booksonix_stored rej r")
    case True
    then have "booksonix_sku r \<in> dom t" using Cons.prems by simp
    then have row: "booksonix_row rej (t, c) r
        = (upsert_table t (booksonix_query_params r), c\<lparr>duplicates := duplicates c + 1\<rparr>)"
      using True by (auto simp add: booksonix_row_cases booksonix_stored_def)
    have "\<forall>r' \<in> set data. booksonix_stored rej r'
        \<longrightarrow> booksonix_sku r' \<in> dom (upsert_table t (booksonix_query_params r))"
      using Cons.prems by (simp add: dom_upsert_table)
    from Cons.IH [OF this, of "c\<lparr>duplicates := duplicates c + 1\<rparr>"] True
    show ?thesis
      unfolding step row by simp
  next
    case False
    then have "booksonix_row rej (t, c) r = (t, c\<lparr>errors := errors c + 1\<rparr>)
        \<or> booksonix_row rej (t, c) r
            = (t, c\<lparr>skippedNoSku := skippedNoSku c + 1, errors := errors c + 1\<rparr>)"
      by (auto simp add: booksonix_row_cases booksonix_stored_def)
    moreover have "\<forall>r' \<in> set data. booksonix_stored rej r' \<longrightarrow> booksonix_sku r' \<in> dom t"
      using Cons.prems by simp
    note ih = Cons.IH [OF this]
    ultimately show ?thesis
      unfolding step using False
      by (auto simp add: ih)
  qed
qed

text \<open>
  C3, as amended. When a file is ingested a second time, right after the first, by a
  store that refuses the same parameter tuples both times: no row is counted as new;
  the rows counted as updated are exactly those with a sku that the store accepts; the
  other rows (without sku, or refused) are counted as errors again; and the table after
  the second ingestion is the table after the first.
\<close>

theorem reingestion_adds_nothing:
  "newRecords (snd (booksonix_rows rej (fst (booksonix_rows rej (t, booksonix_zero) data),
                                       booksonix_zero) data)) = 0
   \<and> duplicates (snd (booksonix_rows rej (fst (booksonix_rows rej (t, booksonix_zero) data),
                                       booksonix_zero) data))
       = length (filter (booksonix_stored rej) data)
   \<and> errors (snd (booksonix_rows rej (fst (booksonix_rows rej (t, booksonix_zero) data),
                                       booksonix_zero) data))
       = length (filter (\<lambda>r. \<not> booksonix_stored rej r) data)
   \<and> fst (booksonix_rows rej (fst (booksonix_rows rej (t, booksonix_zero) data),
                              booksonix_zero) data)
       = fst (booksonix_rows rej (t, booksonix_zero) data)"
proof -
  let ?ps = "map booksonix_query_params (filter (booksonix_stored rej) data)"
  let ?t1 = "fst (booksonix_rows rej (t, booksonix_zero) data)"
  have t1: "?t1 = foldl upsert_table t ?ps"
    by (rule booksonix_rows_table)
  have "\<forall>r \<in> set data. booksonix_stored rej r \<longrightarrow> booksonix_sku r \<in> dom ?t1"
    unfolding t1 dom_foldl_upsert
    by (auto simp add: image_iff params_sku intro!: bexI)
  from booksonix_rows_known_keys [OF this, of booksonix_zero]
  have counts: "newRecords (snd (booksonix_rows rej (?t1, booksonix_zero) data)) = 0"
    "duplicates (snd (booksonix_rows rej (?t1, booksonix_zero) data))
       = length (filter (booksonix_stored rej) data)"
    "errors (snd (booksonix_rows rej (?t1, booksonix_zero) data))
       = length (filter (\<lambda>r. \<not> booksonix_stored rej r) data)"
    by (simp_all add: booksonix_zero_def)
  have "fst (booksonix_rows rej (?t1, booksonix_zero) data) = foldl upsert_table ?t1 ?ps"
    by (rule booksonix_rows_table)
  also have "\<dots> = ?t1"
    unfolding t1 by (rule foldl_upsert_twice)
  finally show ?thesis
    using counts by simp
qed


text \<open>C3 as stated fails on a file with a row without sku: of its two rows the second
  ingestion counts one as updated and the other as an error.\<close>

theorem reingestion_keyless_row_not_updated:
  "duplicates (snd (booksonix_rows (\<lambda>p. False)
      (fst (booksonix_rows (\<lambda>p. False) (Map.empty, booksonix_zero)
              [map_of [(js ''SKU'', JStr (js ''ABC''))], Map.empty]),
       booksonix_zero)
      [map_of [(js ''SKU'', JStr (js ''ABC''))], Map.empty])) = 1
   \<and> errors (snd (booksonix_rows (\<lambda>p. False)
      (fst (booksonix_rows (\<lambda>p. False) (Map.empty, booksonix_zero)
              [map_of [(js ''SKU'', JStr (js ''ABC''))], Map.empty]),
       booksonix_zero)
      [map_of [(js ''SKU'', JStr (js ''ABC''))], Map.empty])) = 1
   \<and> length [map_of [(js ''SKU'', JStr (js ''ABC''))], Map.empty :: row] = 2"
  by (simp add: loop_eval sku_only_row[simplified] sku_only_params[simplified] empty_row_sku)

end
